theory Spec2Isabelle
  imports Complex_Main
begin

section \<open>The Bedrock content-generation adapter (anthropicContentGenerator.ts, anthropicModels.ts)\<close>

text \<open>
  A shallow embedding of the class \<open>AnthropicContentGenerator\<close> and of
  \<open>AnthropicModelSelector.parseModelFromString\<close>.

  Conventions of the embedding:
  \<^item> a JavaScript string is a \<open>string\<close>; one \<open>char\<close> stands for one UTF-16 code unit
    (code units 0..255), so \<open>length\<close> is the \<open>.length\<close> of the source;
  \<^item> an optional property (\<open>field?: T\<close>) is an \<open>option\<close>, \<open>None\<close> being \<open>undefined\<close>;
  \<^item> a token count is a \<open>js_integer\<close>: an integer-valued JavaScript number, an infinity
    or \<open>NaN\<close>; \<open>+\<close> on two counts is \<open>js_plus\<close>, which rounds the exact sum as the
    addition of doubles does;
  \<^item> a thrown exception is the \<open>Inl\<close> of a sum type.
\<close>

subsection \<open>Data model\<close>

datatype js_error = Error string | TypeError string

datatype AnthropicModel =
    CLAUDE_3_5_SONNET
  | CLAUDE_3_5_HAIKU
  | CLAUDE_3_OPUS
  | CLAUDE_3_SONNET
  | CLAUDE_3_HAIKU

text \<open>The string value of each member of the enum \<open>AnthropicModel\<close>.\<close>

fun AnthropicModel_value :: "AnthropicModel \<Rightarrow> string" where
  "AnthropicModel_value CLAUDE_3_5_SONNET = ''anthropic.claude-3-5-sonnet-20241022-v2:0''"
| "AnthropicModel_value CLAUDE_3_5_HAIKU = ''anthropic.claude-3-5-haiku-20241022-v1:0''"
| "AnthropicModel_value CLAUDE_3_OPUS = ''anthropic.claude-3-opus-20240229-v1:0''"
| "AnthropicModel_value CLAUDE_3_SONNET = ''anthropic.claude-3-sonnet-20240229-v1:0''"
| "AnthropicModel_value CLAUDE_3_HAIKU = ''anthropic.claude-3-haiku-20240307-v1:0''"

text \<open>
  Token counts. A JavaScript number is a double: its significand has 53 bits, so every integer
  of magnitude up to \<open>2^53\<close> is a number, and a larger integer is one only when it is a
  multiple of the power of two that keeps 53 significant bits. \<open>round_to_double\<close> sends
  an integer to the nearest such integer, ties going to the even significand, and
  \<open>double_of_exact\<close> adds the overflow to an infinity from \<open>2^1024\<close> on.
\<close>

datatype js_integer = Finite int | PlusInfinity | MinusInfinity | NotANumber

function bit_length :: "int \<Rightarrow> nat" where
  "bit_length n = (if n \<le> 0 then 0 else Suc (bit_length (n div 2)))"
  by pat_completeness auto
termination
  by (relation "measure nat") auto

declare bit_length.simps [simp del]

definition round_to_double :: "int \<Rightarrow> int" where
  "round_to_double n =
     (let m = \<bar>n\<bar>
      in if m \<le> 2 ^ 53 then n
         else
           (let k = bit_length m - 53;
                q = m div 2 ^ k;
                r = m mod 2 ^ k;
                rounded = (if 2 * r > 2 ^ k \<or> (2 * r = 2 ^ k \<and> odd q) then q + 1 else q) * 2 ^ k
            in if n < 0 then - rounded else rounded))"

definition double_of_exact :: "int \<Rightarrow> js_integer" where
  "double_of_exact n =
     (let v = round_to_double n
      in if v \<ge> 2 ^ 1024 then PlusInfinity
         else if v \<le> - (2 ^ 1024) then MinusInfinity
         else Finite v)"

text \<open>The operator \<open>+\<close> on two token counts.\<close>

fun js_plus :: "js_integer \<Rightarrow> js_integer \<Rightarrow> js_integer" where
  "js_plus (Finite a) (Finite b) = double_of_exact (a + b)"
| "js_plus NotANumber y = NotANumber"
| "js_plus x NotANumber = NotANumber"
| "js_plus PlusInfinity MinusInfinity = NotANumber"
| "js_plus MinusInfinity PlusInfinity = NotANumber"
| "js_plus PlusInfinity y = PlusInfinity"
| "js_plus x PlusInfinity = PlusInfinity"
| "js_plus MinusInfinity y = MinusInfinity"
| "js_plus x MinusInfinity = MinusInfinity"

text \<open>The types \<open>Blob\<close>, \<open>Part\<close> and \<open>Content\<close> of the host interface, with the
  properties the adapter reads.\<close>

record Blob =
  mimeType :: "string option"
  data :: "string option"

record Part =
  part_text :: "string option"
  inlineData :: "Blob option"

record Content =
  role :: "string option"
  parts :: "Part list option"

record GenerateContentResponseUsageMetadata =
  promptTokenCount :: js_integer
  candidatesTokenCount :: js_integer
  totalTokenCount :: js_integer

record Candidate =
  content :: Content
  finishReason :: "string option"
  index :: nat

record GenerateContentResponse =
  candidates :: "Candidate list"
  usageMetadata :: "GenerateContentResponseUsageMetadata option"
  modelVersion :: string




record EmbedContentParameters =
  embed_model :: string
  embed_contents :: "Content list"

record EmbedContentResponse =
  embeddings :: "real list list"

subsection \<open>Response translation (non-streaming)\<close>

definition mapStopReason :: "string \<Rightarrow> string" where
  "mapStopReason stopReason =
     (if stopReason = ''end_turn'' then ''STOP''
      else if stopReason = ''max_tokens'' then ''MAX_TOKENS''
      else if stopReason = ''stop_sequence'' then ''STOP''
      else ''OTHER'')"

text \<open>The part \<open>{ text }\<close> and the content \<open>{ parts: [{ text }], role: 'model' }\<close> that
  both translators build.\<close>

definition text_part :: "string \<Rightarrow> Part" where
  "text_part t = \<lparr>part_text = Some t, inlineData = None\<rparr>"

definition model_content :: "string \<Rightarrow> Content" where
  "model_content t = \<lparr>role = Some ''model'', parts = Some [text_part t]\<rparr>"


subsection \<open>Embedding\<close>

definition embedContent :: "EmbedContentParameters \<Rightarrow> js_error + EmbedContentResponse" where
  "embedContent request =
     Inl (Error ''Embeddings not supported with Anthropic models. Use Amazon Titan embeddings instead.'')"

subsection \<open>JavaScript values the adapter tests for truthiness\<close>

text \<open>
  A JavaScript number is \<open>NaN\<close> or a real number; \<open>0\<close> and \<open>NaN\<close> are falsy, every
  other number is truthy. The empty string and \<open>undefined\<close> are falsy, every other
  string is truthy.
\<close>

datatype js_number = NaN | Num real

fun truthy_number :: "js_number option \<Rightarrow> bool" where
  "truthy_number None = False"
| "truthy_number (Some NaN) = False"
| "truthy_number (Some (Num x)) = (x \<noteq> 0)"

fun truthy_string :: "string option \<Rightarrow> bool" where
  "truthy_string None = False"
| "truthy_string (Some s) = (s \<noteq> [])"

text \<open>\<open>value || fallback\<close> on an optional number and on an optional string.\<close>

fun number_or :: "js_number option \<Rightarrow> js_number \<Rightarrow> js_number" where
  "number_or (Some (Num x)) fallback = (if x \<noteq> 0 then Num x else fallback)"
| "number_or (Some NaN) fallback = fallback"
| "number_or None fallback = fallback"

fun string_or :: "string option \<Rightarrow> string \<Rightarrow> string" where
  "string_or (Some s) fallback = (if s \<noteq> [] then s else fallback)"
| "string_or None fallback = fallback"

text \<open>\<open>Array.prototype.join\<close> on an array of strings.\<close>

fun join :: "string \<Rightarrow> string list \<Rightarrow> string" where
  "join sep [] = []"
| "join sep [x] = x"
| "join sep (x # y # ys) = x @ sep @ join sep (y # ys)"

subsection \<open>Property lookup in an object literal\<close>

text \<open>
  The lookup tables of the source (\<open>modelMappings\<close>, \<open>modelMap\<close>) are object literals,
  whose prototype is \<open>Object.prototype\<close>. The expression \<open>table[key]\<close> yields the own
  property of that name when the literal has one; otherwise the property that
  \<open>Object.prototype\<close> has under that name (a function, or the prototype object itself for
  \<open>__proto__\<close>; each of them truthy); otherwise \<open>undefined\<close>.
\<close>

definition Object_prototype_properties :: "string list" where
  "Object_prototype_properties =
     [''constructor'', ''__defineGetter__'', ''__defineSetter__'', ''hasOwnProperty'',
      ''__lookupGetter__'', ''__lookupSetter__'', ''isPrototypeOf'', ''propertyIsEnumerable'',
      ''toString'', ''valueOf'', ''__proto__'', ''toLocaleString'']"

datatype 'v property = Own 'v | Inherited string | Undefined

definition get_property :: "(string \<times> 'v) list \<Rightarrow> string \<Rightarrow> 'v property" where
  "get_property obj key =
     (case map_of obj key of
        Some v \<Rightarrow> Own v
      | None \<Rightarrow> if key \<in> set Object_prototype_properties then Inherited key else Undefined)"

text \<open>
  What a resolver returns at run time: a member of the enum, or a member of
  \<open>Object.prototype\<close> that the lookup found. \<open>table[key] || fallback\<close> keeps every found
  property (the values of the tables are non-empty strings) and takes the fallback for
  \<open>undefined\<close>.
\<close>

datatype model_value = ModelId AnthropicModel | PrototypeProperty string

definition or_default :: "AnthropicModel property \<Rightarrow> model_value \<Rightarrow> model_value" where
  "or_default p fallback =
     (case p of Own m \<Rightarrow> ModelId m | Inherited k \<Rightarrow> PrototypeProperty k | Undefined \<Rightarrow> fallback)"

subsection \<open>Model resolution\<close>

text \<open>\<open>String.prototype.toLowerCase\<close> on the code units 0..255: the letters A-Z and the
  capital letters of Latin-1 move up by 32.\<close>

definition toLowerCase_unit :: "char \<Rightarrow> char" where
  "toLowerCase_unit c =
     (let n = (of_char c :: nat)
      in if (65 \<le> n \<and> n \<le> 90) \<or> (192 \<le> n \<and> n \<le> 214) \<or> (216 \<le> n \<and> n \<le> 222)
         then char_of (n + 32) else c)"

definition toLowerCase :: "string \<Rightarrow> string" where
  "toLowerCase s = map toLowerCase_unit s"

text \<open>The class \<open>\s\<close> on the code units 0..255: tab, line feed, vertical tab, form feed,
  carriage return, space and the no-break space. \<open>is_separator\<close> is the class
  \<open>[-_\s]\<close> of \<open>parseModelFromString\<close>.\<close>

definition is_whitespace :: "char \<Rightarrow> bool" where
  "is_whitespace c = ((of_char c :: nat) \<in> {9, 10, 11, 12, 13, 32, 160})"

definition is_separator :: "char \<Rightarrow> bool" where
  "is_separator c = (c = CHR ''-'' \<or> c = CHR ''_'' \<or> is_whitespace c)"

definition modelMappings :: "(string \<times> AnthropicModel) list" where
  "modelMappings =
     [(''claude35sonnet'', CLAUDE_3_5_SONNET),
      (''claude3.5sonnet'', CLAUDE_3_5_SONNET),
      (''claude35haiku'', CLAUDE_3_5_HAIKU),
      (''claude3.5haiku'', CLAUDE_3_5_HAIKU),
      (''claude3opus'', CLAUDE_3_OPUS),
      (''claude3sonnet'', CLAUDE_3_SONNET),
      (''claude3haiku'', CLAUDE_3_HAIKU),
      (''sonnet'', CLAUDE_3_5_SONNET),
      (''haiku'', CLAUDE_3_5_HAIKU),
      (''opus'', CLAUDE_3_OPUS)]"

definition normalizedModel :: "string \<Rightarrow> string" where
  "normalizedModel modelString = filter (\<lambda>c. \<not> is_separator c) (toLowerCase modelString)"

definition parseModelFromString :: "string \<Rightarrow> model_value" where
  "parseModelFromString modelString =
     or_default (get_property modelMappings (normalizedModel modelString)) (ModelId CLAUDE_3_5_SONNET)"

subsection \<open>The generator and its network client\<close>

text \<open>
  The URL parser, the two proxy-agent classes and the class \<open>BedrockRuntimeClient\<close> of the
  SDK belong to the platform and to libraries; they are parameters of the model, and each of
  them may throw. A client that the SDK constructs holds the configuration it was given;
  \<open>BedrockRuntimeClient_throws\<close> says on which configurations its constructor throws, and
  what.
\<close>

record URL =
  protocol :: string

datatype ProxyAgent = HttpsProxyAgent string | HttpProxyAgent string

record RequestHandler =
  httpAgent :: ProxyAgent
  httpsAgent :: ProxyAgent

datatype Credentials = fromEnv

record ClientConfig =
  region :: string
  credentials :: Credentials
  requestHandler :: "RequestHandler option"

datatype BedrockRuntimeClient = BedrockRuntimeClient ClientConfig

record Platform =
  new_URL :: "string \<Rightarrow> js_error + URL"
  new_HttpsProxyAgent :: "string \<Rightarrow> js_error + ProxyAgent"
  new_HttpProxyAgent :: "string \<Rightarrow> js_error + ProxyAgent"
  BedrockRuntimeClient_throws :: "ClientConfig \<Rightarrow> js_error option"

definition new_BedrockRuntimeClient :: "Platform \<Rightarrow> ClientConfig \<Rightarrow> js_error + BedrockRuntimeClient" where
  "new_BedrockRuntimeClient platform clientConfig =
     (case BedrockRuntimeClient_throws platform clientConfig of
        Some e \<Rightarrow> Inl e
      | None \<Rightarrow> Inr (BedrockRuntimeClient clientConfig))"

record AnthropicContentGenerator =
  bedrockClient :: BedrockRuntimeClient
  defaultModel :: model_value

text \<open>The body of the \<open>try\<close> block of \<open>createProxyAgent\<close>; \<open>None\<close> is \<open>null\<close>.\<close>

definition createProxyAgent_try :: "Platform \<Rightarrow> string \<Rightarrow> js_error + ProxyAgent option" where
  "createProxyAgent_try platform proxyUrl =
     (case new_URL platform proxyUrl of
        Inl e \<Rightarrow> Inl e
      | Inr url \<Rightarrow>
          if protocol url = ''https:'' then
            (case new_HttpsProxyAgent platform proxyUrl of Inl e \<Rightarrow> Inl e | Inr agent \<Rightarrow> Inr (Some agent))
          else if protocol url = ''http:'' then
            (case new_HttpProxyAgent platform proxyUrl of Inl e \<Rightarrow> Inl e | Inr agent \<Rightarrow> Inr (Some agent))
          else Inr None)"

text \<open>\<open>createProxyAgent\<close> with its \<open>catch\<close>: the result is the agent (or \<open>null\<close>) together
  with the lines written by \<open>console.warn\<close>.\<close>

definition createProxyAgent :: "Platform \<Rightarrow> string \<Rightarrow> js_error + (ProxyAgent option \<times> string list)" where
  "createProxyAgent platform proxyUrl =
     (case createProxyAgent_try platform proxyUrl of
        Inr agent \<Rightarrow> Inr (agent, [])
      | Inl error \<Rightarrow> Inr (None, [''Invalid proxy URL: '' @ proxyUrl]))"

text \<open>The block \<open>const agent = this.createProxyAgent(url); if (agent) { clientConfig.requestHandler
  = { httpAgent: agent, httpsAgent: agent }; }\<close>, which the constructor has once for the
  argument and once for the environment.\<close>

definition attachProxyAgent ::
  "Platform \<Rightarrow> ClientConfig \<Rightarrow> string \<Rightarrow> js_error + (ClientConfig \<times> string list)" where
  "attachProxyAgent platform clientConfig url =
     (case createProxyAgent platform url of
        Inl e \<Rightarrow> Inl e
      | Inr (None, warned) \<Rightarrow> Inr (clientConfig, warned)
      | Inr (Some agent, warned) \<Rightarrow>
          Inr (clientConfig\<lparr>requestHandler := Some \<lparr>httpAgent = agent, httpsAgent = agent\<rparr>\<rparr>, warned))"

text \<open>\<open>a || b || c || d\<close> on environment variables: the first truthy one.\<close>

fun first_truthy :: "string option list \<Rightarrow> string option" where
  "first_truthy [] = None"
| "first_truthy (v # vs) = (if truthy_string v then v else first_truthy vs)"

text \<open>The constructor. Its parameters \<open>region\<close> and \<open>defaultModel\<close> have default values,
  taken when the argument is \<open>undefined\<close>. The result is the generator, or what was thrown,
  together with the lines warned. The client is constructed last, outside any \<open>try\<close>.\<close>

definition new_AnthropicContentGenerator ::
  "Platform \<Rightarrow> (string \<Rightarrow> string option) \<Rightarrow> string option \<Rightarrow> model_value option \<Rightarrow> string option
     \<Rightarrow> (js_error + AnthropicContentGenerator) \<times> string list" where
  "new_AnthropicContentGenerator platform env region_arg defaultModel_arg proxyUrl =
     (let clientConfig = \<lparr>region = (case region_arg of None \<Rightarrow> ''us-east-1'' | Some r \<Rightarrow> r),
                          credentials = fromEnv, requestHandler = None\<rparr>;
          envProxy = first_truthy [env ''HTTPS_PROXY'', env ''https_proxy'', env ''HTTP_PROXY'', env ''http_proxy''];
          configured =
            (if truthy_string proxyUrl then attachProxyAgent platform clientConfig (string_or proxyUrl [])
             else if truthy_string envProxy then attachProxyAgent platform clientConfig (string_or envProxy [])
             else Inr (clientConfig, []))
      in case configured of
           Inl e \<Rightarrow> (Inl e, [])
         | Inr (finalConfig, warned) \<Rightarrow>
             (case new_BedrockRuntimeClient platform finalConfig of
                Inl e \<Rightarrow> (Inl e, warned)
              | Inr client \<Rightarrow>
                  (Inr \<lparr>bedrockClient = client,
                        defaultModel = (case defaultModel_arg of None \<Rightarrow> ModelId CLAUDE_3_5_SONNET | Some m \<Rightarrow> m)\<rparr>,
                   warned)))"

definition modelMap :: "(string \<times> AnthropicModel) list" where
  "modelMap =
     [(''gemini-2.0-flash'', CLAUDE_3_5_SONNET),
      (''gemini-1.5-pro'', CLAUDE_3_5_SONNET),
      (''gemini-1.5-flash'', CLAUDE_3_5_HAIKU),
      (''gemini-1.0-pro'', CLAUDE_3_SONNET),
      (''claude-3.5-sonnet'', CLAUDE_3_5_SONNET),
      (''claude-3.5-haiku'', CLAUDE_3_5_HAIKU),
      (''claude-3-opus'', CLAUDE_3_OPUS),
      (''claude-3-sonnet'', CLAUDE_3_SONNET),
      (''claude-3-haiku'', CLAUDE_3_HAIKU)]"

definition getAnthropicModelId :: "AnthropicContentGenerator \<Rightarrow> string \<Rightarrow> model_value" where
  "getAnthropicModelId this geminiModel = or_default (get_property modelMap geminiModel) (defaultModel this)"

subsection \<open>Request translation\<close>

text \<open>The remote message: its content is a string, or an array of text and image blocks
  (\<open>{type: 'text', text}\<close> and
  \<open>{type: 'image', source: {type: 'base64', media_type, data}}\<close>).\<close>

datatype MessageBlock = TextBlock string | ImageBlock string "string option"

datatype MessageContent = StringContent string | ArrayContent "MessageBlock list"

record AnthropicMessage =
  message_role :: string
  message_content :: MessageContent

record SystemInstructionObject =
  instruction_text :: "string option"
  instruction_parts :: "Part list option"

datatype SystemInstruction = InstructionString string | InstructionObject SystemInstructionObject

record GenerateContentConfig =
  maxOutputTokens :: "js_number option"
  temperature :: "js_number option"
  topP :: "js_number option"
  systemInstruction :: "SystemInstruction option"

record GenerateContentParameters =
  model :: string
  contents :: "Content list option"
  config :: "GenerateContentConfig option"

record AnthropicRequest =
  request_model :: model_value
  messages :: "AnthropicMessage list"
  max_tokens :: js_number
  request_temperature :: js_number
  top_p :: js_number
  system :: "string option"
  stream :: "bool option"

text \<open>One round of the loop of \<open>convertPartsToContent\<close> over the pair
  \<open>(textParts, multimodalParts)\<close>. \<open>push\<close> appends at the end, \<open>unshift\<close> inserts at
  the front; the inner loop runs over \<open>textParts\<close> from its first element to its last.\<close>

definition convertPart :: "string list \<times> MessageBlock list \<Rightarrow> Part \<Rightarrow> string list \<times> MessageBlock list" where
  "convertPart acc part =
     (case acc of (textParts, multimodalParts) \<Rightarrow>
       if truthy_string (part_text part) then
         (if length multimodalParts = 0
          then (textParts @ [string_or (part_text part) []], multimodalParts)
          else (textParts, multimodalParts @ [TextBlock (string_or (part_text part) [])]))
       else
         (case inlineData part of
            Some blob \<Rightarrow>
              (let pushed = multimodalParts @ [ImageBlock (string_or (mimeType blob) ''image/jpeg'') (data blob)]
               in ([], foldl (\<lambda>blocks text. TextBlock text # blocks) pushed textParts))
          | None \<Rightarrow> (textParts, multimodalParts)))"

definition convertPartsToContent :: "Part list \<Rightarrow> MessageContent" where
  "convertPartsToContent parts_arg =
     (case foldl convertPart ([], []) parts_arg of (textParts, multimodalParts) \<Rightarrow>
        if length multimodalParts > 0 then ArrayContent multimodalParts
        else StringContent (join [] textParts))"

fun truthy_content :: "MessageContent \<Rightarrow> bool" where
  "truthy_content (StringContent s) = (s \<noteq> [])"
| "truthy_content (ArrayContent blocks) = True"

definition convertContent :: "Content \<Rightarrow> AnthropicMessage list" where
  "convertContent c =
     (if role c = Some ''user'' \<or> role c = Some ''model'' then
        (let r = (if role c = Some ''model'' then ''assistant'' else ''user'');
             messageContent = convertPartsToContent (case parts c of Some ps \<Rightarrow> ps | None \<Rightarrow> [])
         in if truthy_content messageContent
            then [\<lparr>message_role = r, message_content = messageContent\<rparr>] else [])
      else [])"

definition convertContentsToMessages :: "Content list \<Rightarrow> AnthropicMessage list" where
  "convertContentsToMessages cs = concat (map convertContent cs)"

definition extractSystemInstruction :: "GenerateContentConfig option \<Rightarrow> string option" where
  "extractSystemInstruction cfg =
     (case cfg of
        None \<Rightarrow> None
      | Some c \<Rightarrow>
         (case systemInstruction c of
            None \<Rightarrow> None
          | Some (InstructionString s) \<Rightarrow> if s \<noteq> [] then Some s else None
          | Some (InstructionObject obj) \<Rightarrow>
              if truthy_string (instruction_text obj) then instruction_text obj
              else (case instruction_parts obj of
                      Some ps \<Rightarrow>
                        Some (join [CHR 0x0A]
                          (map (\<lambda>part. string_or (part_text part) [])
                            (filter (\<lambda>part. truthy_string (part_text part)) ps)))
                    | None \<Rightarrow> None)))"

definition convertToAnthropicRequest ::
  "AnthropicContentGenerator \<Rightarrow> GenerateContentParameters \<Rightarrow> bool \<Rightarrow> AnthropicRequest" where
  "convertToAnthropicRequest this request stream_arg =
     (let msgs = convertContentsToMessages (case contents request of Some cs \<Rightarrow> cs | None \<Rightarrow> []);
          instruction = extractSystemInstruction (config request)
      in \<lparr>request_model = getAnthropicModelId this (model request),
          messages = msgs,
          max_tokens = number_or (Option.bind (config request) maxOutputTokens) (Num 4096),
          request_temperature = number_or (Option.bind (config request) temperature) (Num 0),
          top_p = number_or (Option.bind (config request) topP) (Num 1),
          system = (if truthy_string instruction then instruction else None),
          stream = (if stream_arg then Some True else None)\<rparr>)"

subsection \<open>Token estimate\<close>

record CountTokensParameters =
  count_model :: string
  count_contents :: "Content list option"

record CountTokensResponse =
  totalTokens :: int

definition extractTextFromContents :: "Content list \<Rightarrow> string" where
  "extractTextFromContents cs =
     join '' ''
       (map (\<lambda>part. string_or (part_text part) [])
         (filter (\<lambda>part. truthy_string (part_text part))
           (concat (map (\<lambda>c. case parts c of Some ps \<Rightarrow> ps | None \<Rightarrow> []) cs))))"

definition countTokens :: "CountTokensParameters \<Rightarrow> CountTokensResponse" where
  "countTokens request =
     (let text = extractTextFromContents (case count_contents request of Some cs \<Rightarrow> cs | None \<Rightarrow> []);
          estimatedTokens = \<lceil>real (length text) / 4\<rceil>
      in \<lparr>totalTokens = estimatedTokens\<rparr>)"

text \<open>The quantity the specification names: the total character count of all text
  segments of the contents.\<close>

definition totalCharacterCountOfAllTextSegments :: "Content list \<Rightarrow> nat" where
  "totalCharacterCountOfAllTextSegments cs =
     sum_list (map (\<lambda>part. case part_text part of Some t \<Rightarrow> length t | None \<Rightarrow> 0)
       (concat (map (\<lambda>c. case parts c of Some ps \<Rightarrow> ps | None \<Rightarrow> []) cs)))"

text \<open>The number of text segments of the contents that are not empty.\<close>

definition numberOfNonEmptyTextSegments :: "Content list \<Rightarrow> nat" where
  "numberOfNonEmptyTextSegments cs =
     length (filter (\<lambda>part. truthy_string (part_text part))
       (concat (map (\<lambda>c. case parts c of Some ps \<Rightarrow> ps | None \<Rightarrow> []) cs)))"

subsection \<open>Response translation (streaming)\<close>

text \<open>
  A decoded frame of the stream (\<open>chunkData\<close>, the JSON value of \<open>event.chunk.bytes\<close>). An
  event of the transport is \<open>Some\<close> frame, or \<open>None\<close> when it has no \<open>chunk.bytes\<close>.
\<close>

record ChunkUsage =
  chunk_input_tokens :: "js_integer option"

record ChunkMessage =
  message_usage :: "ChunkUsage option"

record ChunkDelta =
  delta_text :: "string option"

record AnthropicStreamChunk =
  chunk_type :: string
  chunk_message :: "ChunkMessage option"
  chunk_delta :: "ChunkDelta option"

record StreamState =
  accumulatedText :: string
  inputTokens :: js_integer
  outputTokens :: js_integer

text \<open>\<open>count || 0\<close> on an optional token count: \<open>undefined\<close>, \<open>0\<close> and \<open>NaN\<close> are
  falsy.\<close>

fun count_or_zero :: "js_integer option \<Rightarrow> js_integer" where
  "count_or_zero None = Finite 0"
| "count_or_zero (Some NotANumber) = Finite 0"
| "count_or_zero (Some n) = n"

text \<open>One round of the loop of \<open>processStreamResponse\<close>: the new values of the three
  variables and the responses yielded in this round.\<close>

definition processStreamEvent ::
  "string \<Rightarrow> StreamState \<Rightarrow> AnthropicStreamChunk option \<Rightarrow> StreamState \<times> GenerateContentResponse list" where
  "processStreamEvent originalModel s event =
     (case event of
        None \<Rightarrow> (s, [])
      | Some chunkData \<Rightarrow>
          if chunk_type chunkData = ''message_start''
             \<and> Option.bind (chunk_message chunkData) message_usage \<noteq> None then
            (s\<lparr>inputTokens :=
                 count_or_zero
                   (Option.bind (Option.bind (chunk_message chunkData) message_usage) chunk_input_tokens)\<rparr>,
             [])
          else if chunk_type chunkData = ''content_block_delta''
             \<and> truthy_string (Option.bind (chunk_delta chunkData) delta_text) then
            (let t = string_or (Option.bind (chunk_delta chunkData) delta_text) []
             in (s\<lparr>accumulatedText := accumulatedText s @ t,
                   outputTokens := js_plus (outputTokens s) (Finite 1)\<rparr>,
                 [\<lparr>candidates = [\<lparr>content = model_content t, finishReason = None, index = 0\<rparr>],
                   usageMetadata = None,
                   modelVersion = originalModel\<rparr>]))
          else if chunk_type chunkData = ''message_stop'' then
            (s,
             [\<lparr>candidates = [\<lparr>content = model_content [], finishReason = Some ''STOP'', index = 0\<rparr>],
               usageMetadata = Some \<lparr>promptTokenCount = inputTokens s,
                                     candidatesTokenCount = outputTokens s,
                                     totalTokenCount = js_plus (inputTokens s) (outputTokens s)\<rparr>,
               modelVersion = originalModel\<rparr>])
          else (s, []))"

fun processStreamFrom ::
  "string \<Rightarrow> StreamState \<Rightarrow> AnthropicStreamChunk option list \<Rightarrow> GenerateContentResponse list" where
  "processStreamFrom originalModel s [] = []"
| "processStreamFrom originalModel s (event # events) =
     (case processStreamEvent originalModel s event of
        (s', yielded) \<Rightarrow> yielded @ processStreamFrom originalModel s' events)"

definition processStreamResponse ::
  "AnthropicStreamChunk option list \<Rightarrow> string \<Rightarrow> GenerateContentResponse list" where
  "processStreamResponse responseStream originalModel =
     processStreamFrom originalModel
       \<lparr>accumulatedText = [], inputTokens = Finite 0, outputTokens = Finite 0\<rparr> responseStream"

section \<open>Auxiliary lemmas\<close>

subsection \<open>The loop of \<open>convertPartsToContent\<close>\<close>

lemma foldl_unshift:
  "foldl (\<lambda>blocks t. f t # blocks) init ts = rev (map f ts) @ init"
  by (induction ts arbitrary: init) simp_all

lemma foldl_convertPart_texts:
  "\<forall>t \<in> set ts. t \<noteq> [] \<Longrightarrow>
   foldl convertPart (acc, []) (map text_part ts) = (acc @ ts, [])"
  by (induction ts arbitrary: acc) (simp_all add: convertPart_def text_part_def)

text \<open>Non-empty text segments followed by the first media segment come out in reverse
  order, ahead of the image block.\<close>

lemma convertPartsToContent_texts_then_media:
  assumes "\<forall>t \<in> set ts. t \<noteq> []"
  shows "convertPartsToContent (map text_part ts @ [\<lparr>part_text = None, inlineData = Some blob\<rparr>]) =
         ArrayContent (rev (map TextBlock ts)
           @ [ImageBlock (string_or (mimeType blob) ''image/jpeg'') (data blob)])"
  using assms
  by (simp add: convertPartsToContent_def foldl_convertPart_texts convertPart_def foldl_unshift)

text \<open>With one text segment before the media segment the order is the original one.\<close>

lemma convertPartsToContent_one_text_then_media:
  assumes "t \<noteq> []"
  shows "convertPartsToContent [text_part t, \<lparr>part_text = None, inlineData = Some blob\<rparr>] =
         ArrayContent [TextBlock t, ImageBlock (string_or (mimeType blob) ''image/jpeg'') (data blob)]"
  using assms convertPartsToContent_texts_then_media [of "[t]" blob] by simp

subsection \<open>The token estimate\<close>

lemma ceiling_quarter: "\<lceil>real n / 4\<rceil> = int ((n + 3) div 4)"
proof -
  have "\<lceil>real n / 4\<rceil> = - \<lfloor>- (real_of_int (int n)) / real_of_int 4\<rfloor>"
    by (simp add: ceiling_def)
  also have "\<dots> = - ((- int n) div 4)"
    by (metis floor_divide_of_int_eq of_int_minus)
  also have "\<dots> = int ((n + 3) div 4)"
    by (simp add: zdiv_int)
  finally show ?thesis .
qed

lemma length_join: "length (join sep xs) = sum_list (map length xs) + (length xs - 1) * length sep"
  by (induction sep xs rule: join.induct) simp_all

lemma sum_length_truthy_texts:
  "sum_list (map length (map (\<lambda>part. string_or (part_text part) [])
      (filter (\<lambda>part. truthy_string (part_text part)) ps)))
   = sum_list (map (\<lambda>part. case part_text part of Some t \<Rightarrow> length t | None \<Rightarrow> 0) ps)"
proof (induction ps)
  case Nil
  show ?case by simp
next
  case (Cons p ps)
  then show ?case by (cases "part_text p") simp_all
qed

lemma length_extractTextFromContents:
  "length (extractTextFromContents cs) =
     totalCharacterCountOfAllTextSegments cs + (numberOfNonEmptyTextSegments cs - 1)"
  unfolding extractTextFromContents_def totalCharacterCountOfAllTextSegments_def
    numberOfNonEmptyTextSegments_def
  by (simp only: length_join sum_length_truthy_texts length_map) simp

subsection \<open>The stream loop\<close>

lemma processStreamEvent_delta:
  assumes "chunk_type chunk = ''content_block_delta''"
    and "Option.bind (chunk_delta chunk) delta_text = Some t"
    and "t \<noteq> []"
  shows "processStreamEvent m s (Some chunk) =
           (s\<lparr>accumulatedText := accumulatedText s @ t,
              outputTokens := js_plus (outputTokens s) (Finite 1)\<rparr>,
            [\<lparr>candidates = [\<lparr>content = model_content t, finishReason = None, index = 0\<rparr>],
              usageMetadata = None, modelVersion = m\<rparr>])"
  using assms by (simp add: processStreamEvent_def)

lemma processStreamFrom_snoc_delta:
  assumes "chunk_type chunk = ''content_block_delta''"
    and "Option.bind (chunk_delta chunk) delta_text = Some t"
    and "t \<noteq> []"
  shows "processStreamFrom m s (events @ [Some chunk]) =
           processStreamFrom m s events @
            [\<lparr>candidates = [\<lparr>content = model_content t, finishReason = None, index = 0\<rparr>],
              usageMetadata = None, modelVersion = m\<rparr>]"
proof (induction events arbitrary: s)
  case Nil
  show ?case by (simp add: processStreamEvent_delta [OF assms])
next
  case (Cons e events)
  then show ?case by (simp split: prod.splits)
qed

subsection \<open>The constructor\<close>

lemma createProxyAgent_returns:
  "\<exists>agent warned. createProxyAgent platform url = Inr (agent, warned)"
  by (cases "createProxyAgent_try platform url") (simp_all add: createProxyAgent_def)

lemma attachProxyAgent_returns:
  "\<exists>finalConfig warned. attachProxyAgent platform clientConfig url = Inr (finalConfig, warned)
      \<and> region finalConfig = region clientConfig"
proof -
  obtain agent warned where "createProxyAgent platform url = Inr (agent, warned)"
    using createProxyAgent_returns by blast
  then show ?thesis
    by (cases agent) (simp_all add: attachProxyAgent_def)
qed

lemma first_truthy_Some: "first_truthy vs = Some p \<Longrightarrow> p \<noteq> []"
  by (induction vs) (auto split: if_splits)

lemma new_AnthropicContentGenerator_no_proxy:
  "new_AnthropicContentGenerator platform (\<lambda>name. None) region_arg defaultModel_arg None =
     (case BedrockRuntimeClient_throws platform
             \<lparr>region = (case region_arg of None \<Rightarrow> ''us-east-1'' | Some r \<Rightarrow> r),
               credentials = fromEnv, requestHandler = None\<rparr> of
        Some e \<Rightarrow> Inl e
      | None \<Rightarrow>
          Inr \<lparr>bedrockClient = BedrockRuntimeClient
                  \<lparr>region = (case region_arg of None \<Rightarrow> ''us-east-1'' | Some r \<Rightarrow> r),
                    credentials = fromEnv, requestHandler = None\<rparr>,
                defaultModel = (case defaultModel_arg of None \<Rightarrow> ModelId CLAUDE_3_5_SONNET | Some m \<Rightarrow> m)\<rparr>,
      [])"
  by (simp add: new_AnthropicContentGenerator_def Let_def new_BedrockRuntimeClient_def split: option.splits)

lemma new_AnthropicContentGenerator_no_agent:
  "proxyUrl \<noteq> [] \<Longrightarrow> createProxyAgent platform proxyUrl = Inr (None, warned) \<Longrightarrow>
     new_AnthropicContentGenerator platform env region_arg defaultModel_arg (Some proxyUrl) =
       (fst (new_AnthropicContentGenerator platform (\<lambda>name. None) region_arg defaultModel_arg None), warned)"
  by (simp add: new_AnthropicContentGenerator_no_proxy)
     (simp add: new_AnthropicContentGenerator_def Let_def attachProxyAgent_def new_BedrockRuntimeClient_def
        split: option.splits)

lemma new_AnthropicContentGenerator_no_agent_env:
  assumes "\<not> truthy_string proxyUrl_arg"
    and "first_truthy [env ''HTTPS_PROXY'', env ''https_proxy'', env ''HTTP_PROXY'', env ''http_proxy''] = Some proxyUrl"
    and "createProxyAgent platform proxyUrl = Inr (None, warned)"
  shows "new_AnthropicContentGenerator platform env region_arg defaultModel_arg proxyUrl_arg =
       (fst (new_AnthropicContentGenerator platform (\<lambda>name. None) region_arg defaultModel_arg None), warned)"
proof -
  have "proxyUrl \<noteq> []" using assms(2) by (rule first_truthy_Some)
  with assms show ?thesis
    by (simp add: new_AnthropicContentGenerator_no_proxy)
       (simp add: new_AnthropicContentGenerator_def Let_def attachProxyAgent_def new_BedrockRuntimeClient_def
          split: option.splits)
qed

lemma new_AnthropicContentGenerator_throws_only_client:
  assumes "fst (new_AnthropicContentGenerator platform env region_arg defaultModel_arg proxyUrl_arg) = Inl e"
  shows "\<exists>finalConfig. BedrockRuntimeClient_throws platform finalConfig = Some e
           \<and> region finalConfig = (case region_arg of None \<Rightarrow> ''us-east-1'' | Some r \<Rightarrow> r)"
proof -
  define clientConfig where
    "clientConfig = \<lparr>region = (case region_arg of None \<Rightarrow> ''us-east-1'' | Some r \<Rightarrow> r),
                      credentials = fromEnv, requestHandler = None\<rparr>"
  define envProxy where
    "envProxy = first_truthy [env ''HTTPS_PROXY'', env ''https_proxy'', env ''HTTP_PROXY'', env ''http_proxy'']"
  define configured where
    "configured = (if truthy_string proxyUrl_arg then attachProxyAgent platform clientConfig (string_or proxyUrl_arg [])
             else if truthy_string envProxy then attachProxyAgent platform clientConfig (string_or envProxy [])
             else Inr (clientConfig, []))"
  have "\<exists>finalConfig warned. configured = Inr (finalConfig, warned) \<and> region finalConfig = region clientConfig"
    unfolding configured_def using attachProxyAgent_returns by simp
  then obtain finalConfig warned where c: "configured = Inr (finalConfig, warned)"
    and r: "region finalConfig = region clientConfig"
    by blast
  have "new_AnthropicContentGenerator platform env region_arg defaultModel_arg proxyUrl_arg =
          (case configured of
           Inl e \<Rightarrow> (Inl e, [])
         | Inr (finalConfig, warned) \<Rightarrow>
             (case new_BedrockRuntimeClient platform finalConfig of
                Inl e \<Rightarrow> (Inl e, warned)
              | Inr client \<Rightarrow>
                  (Inr \<lparr>bedrockClient = client,
                        defaultModel = (case defaultModel_arg of None \<Rightarrow> ModelId CLAUDE_3_5_SONNET | Some m \<Rightarrow> m)\<rparr>,
                   warned)))"
    by (simp only: new_AnthropicContentGenerator_def Let_def configured_def envProxy_def clientConfig_def)
  with c assms have "BedrockRuntimeClient_throws platform finalConfig = Some e"
    by (simp add: new_BedrockRuntimeClient_def split: option.splits)
  with r show ?thesis
    by (auto simp add: clientConfig_def)
qed

lemma createProxyAgent_malformed:
  "new_URL platform proxyUrl = Inl e \<Longrightarrow>
     createProxyAgent platform proxyUrl = Inr (None, [''Invalid proxy URL: '' @ proxyUrl])"
  by (simp add: createProxyAgent_def createProxyAgent_try_def)

lemma createProxyAgent_try_throws:
  "createProxyAgent_try platform proxyUrl = Inl e \<Longrightarrow>
     createProxyAgent platform proxyUrl = Inr (None, [''Invalid proxy URL: '' @ proxyUrl])"
  by (simp add: createProxyAgent_def)

lemma createProxyAgent_other_scheme:
  "new_URL platform proxyUrl = Inr url \<Longrightarrow> protocol url \<noteq> ''https:'' \<Longrightarrow> protocol url \<noteq> ''http:'' \<Longrightarrow>
     createProxyAgent platform proxyUrl = Inr (None, [])"
  by (simp add: createProxyAgent_def createProxyAgent_try_def)

text \<open>A proxy-agent class that throws leaves the client without proxy as well, and a proxy
  URL that parses with scheme \<open>http:\<close> is attached as both agents.\<close>

lemma createProxyAgent_agent_throws:
  "new_URL platform proxyUrl = Inr url \<Longrightarrow> protocol url = ''https:'' \<Longrightarrow>
   new_HttpsProxyAgent platform proxyUrl = Inl e \<Longrightarrow>
     createProxyAgent platform proxyUrl = Inr (None, [''Invalid proxy URL: '' @ proxyUrl])"
  by (simp add: createProxyAgent_def createProxyAgent_try_def)

lemma new_AnthropicContentGenerator_http_proxy:
  "proxyUrl \<noteq> [] \<Longrightarrow> new_URL platform proxyUrl = Inr url \<Longrightarrow> protocol url = ''http:'' \<Longrightarrow>
   new_HttpProxyAgent platform proxyUrl = Inr agent \<Longrightarrow>
   BedrockRuntimeClient_throws platform
     \<lparr>region = (case region_arg of None \<Rightarrow> ''us-east-1'' | Some r \<Rightarrow> r), credentials = fromEnv,
       requestHandler = Some \<lparr>httpAgent = agent, httpsAgent = agent\<rparr>\<rparr> = None \<Longrightarrow>
     new_AnthropicContentGenerator platform env region_arg defaultModel_arg (Some proxyUrl) =
       (Inr \<lparr>bedrockClient = BedrockRuntimeClient
                \<lparr>region = (case region_arg of None \<Rightarrow> ''us-east-1'' | Some r \<Rightarrow> r),
                  credentials = fromEnv,
                  requestHandler = Some \<lparr>httpAgent = agent, httpsAgent = agent\<rparr>\<rparr>,
              defaultModel = (case defaultModel_arg of None \<Rightarrow> ModelId CLAUDE_3_5_SONNET | Some m \<Rightarrow> m)\<rparr>,
        [])"
  by (simp add: new_AnthropicContentGenerator_def Let_def attachProxyAgent_def createProxyAgent_def
      createProxyAgent_try_def new_BedrockRuntimeClient_def)

subsection \<open>Token counts\<close>

text \<open>The sum of two integer counts is exact as long as its magnitude is at most \<open>2^53\<close>.\<close>

lemma double_of_exact_exact: "\<bar>n\<bar> \<le> 2 ^ 53 \<Longrightarrow> double_of_exact n = Finite n"
proof -
  assume h: "\<bar>n\<bar> \<le> 2 ^ 53"
  then have r: "round_to_double n = n"
    by (simp add: round_to_double_def Let_def)
  have "(2::int) ^ 53 < 2 ^ 1024" by simp
  with h have "n < 2 ^ 1024" and "- (2 ^ 1024) < n" by linarith+
  with r show ?thesis by (simp add: double_of_exact_def Let_def)
qed

lemma js_plus_exact: "\<bar>a + b\<bar> \<le> 2 ^ 53 \<Longrightarrow> js_plus (Finite a) (Finite b) = Finite (a + b)"
  by (simp add: double_of_exact_exact)

subsection \<open>Normalisation of model names\<close>

lemma of_char_less_256: "(of_char c :: nat) < 256"
  by (metis of_char_mod_256 mod_less_divisor zero_less_numeral)

lemma toLowerCase_unit_idem: "toLowerCase_unit (toLowerCase_unit c) = toLowerCase_unit c"
  using of_char_less_256 [of c]
  by (auto simp add: toLowerCase_unit_def Let_def)

lemma is_separator_code: "is_separator c = ((of_char c :: nat) \<in> {45, 95, 9, 10, 11, 12, 13, 32, 160})"
proof -
  have "c = CHR ''-'' \<longleftrightarrow> (of_char c :: nat) = of_char CHR ''-''"
    by (simp only: of_char_eq_iff)
  moreover have "c = CHR ''_'' \<longleftrightarrow> (of_char c :: nat) = of_char CHR ''_''"
    by (simp only: of_char_eq_iff)
  ultimately show ?thesis
    by (auto simp add: is_separator_def is_whitespace_def)
qed

lemma is_separator_toLowerCase_unit: "is_separator (toLowerCase_unit c) = is_separator c"
  using of_char_less_256 [of c]
  by (auto simp add: is_separator_code toLowerCase_unit_def Let_def)

text \<open>Lower-casing the input, or removing its separators, beforehand changes nothing.\<close>

lemma normalizedModel_toLowerCase: "normalizedModel (toLowerCase s) = normalizedModel s"
  by (induction s) (simp_all add: normalizedModel_def toLowerCase_def toLowerCase_unit_idem)

lemma normalizedModel_strip: "normalizedModel (filter (\<lambda>c. \<not> is_separator c) s) = normalizedModel s"
  by (induction s) (simp_all add: normalizedModel_def toLowerCase_def is_separator_toLowerCase_unit)

subsection \<open>The resolver on unknown names\<close>

text \<open>A name that is neither in the alias table nor a member of \<open>Object.prototype\<close>
  resolves to Claude 3.5 Sonnet.\<close>

lemma parseModelFromString_unknown:
  assumes "map_of modelMappings (normalizedModel modelString) = None"
    and "normalizedModel modelString \<notin> set Object_prototype_properties"
  shows "parseModelFromString modelString = ModelId CLAUDE_3_5_SONNET"
  using assms by (simp add: parseModelFromString_def get_property_def or_default_def)

lemma parseModelFromString_totally_unknown_model:
  "parseModelFromString ''totally-unknown-model'' = ModelId CLAUDE_3_5_SONNET"
  by code_simp

lemma getAnthropicModelId_unknown:
  assumes "map_of modelMap geminiModel = None"
    and "geminiModel \<notin> set Object_prototype_properties"
  shows "getAnthropicModelId this geminiModel = defaultModel this"
  using assms by (simp add: getAnthropicModelId_def get_property_def or_default_def)

section \<open>Properties\<close>

text \<open>
  C1. Two text segments followed by a media segment: the content is an array, but its two
  text blocks come in the reverse of their original order (\<open>b\<close> before \<open>a\<close>), ahead of
  the image block. The loop that moves the collected texts in front of the image takes them
  first to last and puts each one at the front of the array.
\<close>

theorem convertPartsToContent_reverses_leading_texts:
  "convertPartsToContent
     [\<lparr>part_text = Some ''a'', inlineData = None\<rparr>,
      \<lparr>part_text = Some ''b'', inlineData = None\<rparr>,
      \<lparr>part_text = None, inlineData = Some \<lparr>mimeType = Some ''image/png'', data = Some ''AAAA''\<rparr>\<rparr>]
     = ArrayContent [TextBlock ''b'', TextBlock ''a'', ImageBlock ''image/png'' (Some ''AAAA'')]
   \<and> convertPartsToContent
     [\<lparr>part_text = Some ''a'', inlineData = None\<rparr>,
      \<lparr>part_text = Some ''b'', inlineData = None\<rparr>,
      \<lparr>part_text = None, inlineData = Some \<lparr>mimeType = Some ''image/png'', data = Some ''AAAA''\<rparr>\<rparr>]
     \<noteq> ArrayContent [TextBlock ''a'', TextBlock ''b'', ImageBlock ''image/png'' (Some ''AAAA'')]"
  by (simp add: convertPartsToContent_def convertPart_def)

text \<open>
  C2, as stated, fails: with an explicit \<open>0\<close> for \<open>maxOutputTokens\<close> and for \<open>topP\<close> the
  translated request has neither \<open>max_tokens = 0\<close> nor \<open>top_p = 0\<close>.
\<close>

theorem convertToAnthropicRequest_zero_counterexample:
  "max_tokens (convertToAnthropicRequest
      \<lparr>bedrockClient = BedrockRuntimeClient \<lparr>region = ''us-east-1'', credentials = fromEnv, requestHandler = None\<rparr>,
        defaultModel = ModelId CLAUDE_3_5_SONNET\<rparr>
      \<lparr>model = ''claude-3.5-sonnet'', contents = None,
        config = Some \<lparr>maxOutputTokens = Some (Num 0), temperature = Some (Num 0), topP = Some (Num 0),
                       systemInstruction = None\<rparr>\<rparr> False) \<noteq> Num 0
   \<and> top_p (convertToAnthropicRequest
      \<lparr>bedrockClient = BedrockRuntimeClient \<lparr>region = ''us-east-1'', credentials = fromEnv, requestHandler = None\<rparr>,
        defaultModel = ModelId CLAUDE_3_5_SONNET\<rparr>
      \<lparr>model = ''claude-3.5-sonnet'', contents = None,
        config = Some \<lparr>maxOutputTokens = Some (Num 0), temperature = Some (Num 0), topP = Some (Num 0),
                       systemInstruction = None\<rparr>\<rparr> False) \<noteq> Num 0"
  by (simp add: convertToAnthropicRequest_def Let_def)

text \<open>
  C2, amended. The defaults (\<open>max_tokens\<close> 4096, \<open>temperature\<close> 0, \<open>top_p\<close> 1) are taken
  when the parameter is absent or is \<open>0\<close>; every other number supplied appears unchanged.
  An explicit temperature \<open>0\<close> therefore gives temperature \<open>0\<close>, an explicit
  \<open>maxOutputTokens\<close> of \<open>0\<close> gives 4096, and an explicit \<open>topP\<close> of \<open>0\<close> gives 1.
\<close>

theorem convertToAnthropicRequest_numeric_defaults:
  assumes "config request = Some cfg"
  shows "(maxOutputTokens cfg = None \<longrightarrow> max_tokens (convertToAnthropicRequest this request stream_arg) = Num 4096)
    \<and> (temperature cfg = None \<longrightarrow> request_temperature (convertToAnthropicRequest this request stream_arg) = Num 0)
    \<and> (topP cfg = None \<longrightarrow> top_p (convertToAnthropicRequest this request stream_arg) = Num 1)
    \<and> (\<forall>x. x \<noteq> 0 \<longrightarrow> maxOutputTokens cfg = Some (Num x) \<longrightarrow>
          max_tokens (convertToAnthropicRequest this request stream_arg) = Num x)
    \<and> (\<forall>x. temperature cfg = Some (Num x) \<longrightarrow>
          request_temperature (convertToAnthropicRequest this request stream_arg) = Num x)
    \<and> (\<forall>x. x \<noteq> 0 \<longrightarrow> topP cfg = Some (Num x) \<longrightarrow>
          top_p (convertToAnthropicRequest this request stream_arg) = Num x)
    \<and> (maxOutputTokens cfg = Some (Num 0) \<longrightarrow>
          max_tokens (convertToAnthropicRequest this request stream_arg) = Num 4096)
    \<and> (topP cfg = Some (Num 0) \<longrightarrow>
          top_p (convertToAnthropicRequest this request stream_arg) = Num 1)"
  using assms by (simp add: convertToAnthropicRequest_def Let_def)

text \<open>The amended C2 at a request with \<open>maxOutputTokens\<close> 512, temperature 0 and
  \<open>topP\<close> 0.\<close>

theorem convertToAnthropicRequest_numeric_defaults_witness:
  "config \<lparr>model = ''claude-3.5-sonnet'', contents = None,
        config = Some \<lparr>maxOutputTokens = Some (Num 512), temperature = Some (Num 0), topP = Some (Num 0),
                       systemInstruction = None\<rparr>\<rparr>
     = Some \<lparr>maxOutputTokens = Some (Num 512), temperature = Some (Num 0), topP = Some (Num 0),
          systemInstruction = None\<rparr>
   \<and> max_tokens (convertToAnthropicRequest
      \<lparr>bedrockClient = BedrockRuntimeClient \<lparr>region = ''us-east-1'', credentials = fromEnv, requestHandler = None\<rparr>,
        defaultModel = ModelId CLAUDE_3_5_SONNET\<rparr>
      \<lparr>model = ''claude-3.5-sonnet'', contents = None,
        config = Some \<lparr>maxOutputTokens = Some (Num 512), temperature = Some (Num 0), topP = Some (Num 0),
                       systemInstruction = None\<rparr>\<rparr> False) = Num 512
   \<and> request_temperature (convertToAnthropicRequest
      \<lparr>bedrockClient = BedrockRuntimeClient \<lparr>region = ''us-east-1'', credentials = fromEnv, requestHandler = None\<rparr>,
        defaultModel = ModelId CLAUDE_3_5_SONNET\<rparr>
      \<lparr>model = ''claude-3.5-sonnet'', contents = None,
        config = Some \<lparr>maxOutputTokens = Some (Num 512), temperature = Some (Num 0), topP = Some (Num 0),
                       systemInstruction = None\<rparr>\<rparr> False) = Num 0
   \<and> top_p (convertToAnthropicRequest
      \<lparr>bedrockClient = BedrockRuntimeClient \<lparr>region = ''us-east-1'', credentials = fromEnv, requestHandler = None\<rparr>,
        defaultModel = ModelId CLAUDE_3_5_SONNET\<rparr>
      \<lparr>model = ''claude-3.5-sonnet'', contents = None,
        config = Some \<lparr>maxOutputTokens = Some (Num 512), temperature = Some (Num 0), topP = Some (Num 0),
                       systemInstruction = None\<rparr>\<rparr> False) = Num 1"
  using convertToAnthropicRequest_numeric_defaults
    [of "\<lparr>model = ''claude-3.5-sonnet'', contents = None,
        config = Some \<lparr>maxOutputTokens = Some (Num 512), temperature = Some (Num 0), topP = Some (Num 0),
                       systemInstruction = None\<rparr>\<rparr>"
        "\<lparr>maxOutputTokens = Some (Num 512), temperature = Some (Num 0), topP = Some (Num 0),
          systemInstruction = None\<rparr>"
        "\<lparr>bedrockClient = BedrockRuntimeClient \<lparr>region = ''us-east-1'', credentials = fromEnv, requestHandler = None\<rparr>,
        defaultModel = ModelId CLAUDE_3_5_SONNET\<rparr>" False]
  by simp

text \<open>
  C3, as stated, fails: for the two text segments \<open>abcd\<close> and \<open>efgh\<close> (8 characters in
  all, so \<open>ceil(8 / 4) = 2\<close>) \<open>countTokens\<close> returns 3, since the segments are joined
  with a space before the length is taken.
\<close>

theorem countTokens_two_segments_counterexample:
  "totalTokens (countTokens \<lparr>count_model = ''claude-3.5-sonnet'', count_contents =
      Some [\<lparr>role = Some ''user'',
             parts = Some [\<lparr>part_text = Some ''abcd'', inlineData = None\<rparr>,
                           \<lparr>part_text = Some ''efgh'', inlineData = None\<rparr>]\<rparr>]\<rparr>)
   \<noteq> \<lceil>real (totalCharacterCountOfAllTextSegments
        [\<lparr>role = Some ''user'',
          parts = Some [\<lparr>part_text = Some ''abcd'', inlineData = None\<rparr>,
                        \<lparr>part_text = Some ''efgh'', inlineData = None\<rparr>]\<rparr>]) / 4\<rceil>
   \<and> totalTokens (countTokens \<lparr>count_model = ''claude-3.5-sonnet'', count_contents =
      Some [\<lparr>role = Some ''user'',
             parts = Some [\<lparr>part_text = Some ''abcd'', inlineData = None\<rparr>,
                           \<lparr>part_text = Some ''efgh'', inlineData = None\<rparr>]\<rparr>]\<rparr>) = 3"
  by (simp add: countTokens_def extractTextFromContents_def totalCharacterCountOfAllTextSegments_def
      ceiling_quarter)

text \<open>
  C3, amended. \<open>countTokens\<close> returns \<open>ceil(L / 4)\<close> where \<open>L\<close> is the total character
  count of all text segments plus one separator for each non-empty text segment after the
  first (the length of the non-empty segments joined with single spaces); a single text
  segment \<open>abcdefgh\<close> yields 2.
\<close>

theorem countTokens_estimate:
  "totalTokens (countTokens request) =
     \<lceil>real (totalCharacterCountOfAllTextSegments (case count_contents request of Some cs \<Rightarrow> cs | None \<Rightarrow> [])
            + (numberOfNonEmptyTextSegments (case count_contents request of Some cs \<Rightarrow> cs | None \<Rightarrow> []) - 1)) / 4\<rceil>
   \<and> totalTokens (countTokens \<lparr>count_model = m, count_contents =
         Some [\<lparr>role = r, parts = Some [\<lparr>part_text = Some ''abcdefgh'', inlineData = None\<rparr>]\<rparr>]\<rparr>) = 2"
proof -
  have general: "\<And>req. totalTokens (countTokens req) =
     \<lceil>real (totalCharacterCountOfAllTextSegments (case count_contents req of Some cs \<Rightarrow> cs | None \<Rightarrow> [])
            + (numberOfNonEmptyTextSegments (case count_contents req of Some cs \<Rightarrow> cs | None \<Rightarrow> []) - 1)) / 4\<rceil>"
    by (simp only: countTokens_def Let_def length_extractTextFromContents
        CountTokensResponse.simps)
  have "totalTokens (countTokens \<lparr>count_model = m, count_contents =
         Some [\<lparr>role = r, parts = Some [\<lparr>part_text = Some ''abcdefgh'', inlineData = None\<rparr>]\<rparr>]\<rparr>) = 2"
    by (simp add: general totalCharacterCountOfAllTextSegments_def numberOfNonEmptyTextSegments_def)
  with general show ?thesis by blast
qed

text \<open>
  C4. The frames \<open>message_start\<close> (7 input tokens), \<open>content_block_delta\<close> (\<open>Hel\<close>),
  \<open>content_block_delta\<close> (\<open>lo\<close>), \<open>message_stop\<close> give exactly three responses: text
  \<open>Hel\<close> and text \<open>lo\<close>, each without finish reason and without usage, then the empty text
  with finish reason \<open>STOP\<close> and usage 7, 2 and 9. In general a \<open>content_block_delta\<close> frame
  with a non-empty text \<open>t\<close> yields, in its own round of the loop and whatever came before,
  the one response whose text is \<open>t\<close>, without finish reason and without usage; a stream
  that ends in such a frame yields what the stream before it yields, followed by that
  response.
\<close>

theorem processStreamResponse_incremental:
  assumes "chunk_type chunk = ''content_block_delta''"
    and "chunk_delta chunk = Some d"
    and "delta_text d = Some t"
    and "t \<noteq> []"
  shows
   "processStreamResponse
     [Some \<lparr>chunk_type = ''message_start'',
            chunk_message = Some \<lparr>message_usage = Some \<lparr>chunk_input_tokens = Some (Finite 7)\<rparr>\<rparr>,
            chunk_delta = None\<rparr>,
      Some \<lparr>chunk_type = ''content_block_delta'', chunk_message = None,
            chunk_delta = Some \<lparr>delta_text = Some ''Hel''\<rparr>\<rparr>,
      Some \<lparr>chunk_type = ''content_block_delta'', chunk_message = None,
            chunk_delta = Some \<lparr>delta_text = Some ''lo''\<rparr>\<rparr>,
      Some \<lparr>chunk_type = ''message_stop'', chunk_message = None, chunk_delta = None\<rparr>] m
    = [\<lparr>candidates = [\<lparr>content = \<lparr>role = Some ''model'',
                                     parts = Some [\<lparr>part_text = Some ''Hel'', inlineData = None\<rparr>]\<rparr>,
                        finishReason = None, index = 0\<rparr>],
        usageMetadata = None, modelVersion = m\<rparr>,
       \<lparr>candidates = [\<lparr>content = \<lparr>role = Some ''model'',
                                     parts = Some [\<lparr>part_text = Some ''lo'', inlineData = None\<rparr>]\<rparr>,
                        finishReason = None, index = 0\<rparr>],
        usageMetadata = None, modelVersion = m\<rparr>,
       \<lparr>candidates = [\<lparr>content = \<lparr>role = Some ''model'',
                                     parts = Some [\<lparr>part_text = Some [], inlineData = None\<rparr>]\<rparr>,
                        finishReason = Some ''STOP'', index = 0\<rparr>],
        usageMetadata = Some \<lparr>promptTokenCount = Finite 7, candidatesTokenCount = Finite 2,
                              totalTokenCount = Finite 9\<rparr>,
        modelVersion = m\<rparr>]
    \<and> snd (processStreamEvent m s (Some chunk))
        = [\<lparr>candidates = [\<lparr>content = \<lparr>role = Some ''model'',
                                         parts = Some [\<lparr>part_text = Some t, inlineData = None\<rparr>]\<rparr>,
                            finishReason = None, index = 0\<rparr>],
            usageMetadata = None, modelVersion = m\<rparr>]
    \<and> processStreamResponse (events @ [Some chunk]) m
        = processStreamResponse events m
          @ [\<lparr>candidates = [\<lparr>content = \<lparr>role = Some ''model'',
                                           parts = Some [\<lparr>part_text = Some t, inlineData = None\<rparr>]\<rparr>,
                              finishReason = None, index = 0\<rparr>],
              usageMetadata = None, modelVersion = m\<rparr>]"
proof -
  have bind: "Option.bind (chunk_delta chunk) delta_text = Some t"
    using assms(2,3) by simp
  have scenario: "processStreamResponse
     [Some \<lparr>chunk_type = ''message_start'',
            chunk_message = Some \<lparr>message_usage = Some \<lparr>chunk_input_tokens = Some (Finite 7)\<rparr>\<rparr>,
            chunk_delta = None\<rparr>,
      Some \<lparr>chunk_type = ''content_block_delta'', chunk_message = None,
            chunk_delta = Some \<lparr>delta_text = Some ''Hel''\<rparr>\<rparr>,
      Some \<lparr>chunk_type = ''content_block_delta'', chunk_message = None,
            chunk_delta = Some \<lparr>delta_text = Some ''lo''\<rparr>\<rparr>,
      Some \<lparr>chunk_type = ''message_stop'', chunk_message = None, chunk_delta = None\<rparr>] m
    = [\<lparr>candidates = [\<lparr>content = \<lparr>role = Some ''model'',
                                     parts = Some [\<lparr>part_text = Some ''Hel'', inlineData = None\<rparr>]\<rparr>,
                        finishReason = None, index = 0\<rparr>],
        usageMetadata = None, modelVersion = m\<rparr>,
       \<lparr>candidates = [\<lparr>content = \<lparr>role = Some ''model'',
                                     parts = Some [\<lparr>part_text = Some ''lo'', inlineData = None\<rparr>]\<rparr>,
                        finishReason = None, index = 0\<rparr>],
        usageMetadata = None, modelVersion = m\<rparr>,
       \<lparr>candidates = [\<lparr>content = \<lparr>role = Some ''model'',
                                     parts = Some [\<lparr>part_text = Some [], inlineData = None\<rparr>]\<rparr>,
                        finishReason = Some ''STOP'', index = 0\<rparr>],
        usageMetadata = Some \<lparr>promptTokenCount = Finite 7, candidatesTokenCount = Finite 2,
                              totalTokenCount = Finite 9\<rparr>,
        modelVersion = m\<rparr>]"
    by (simp add: processStreamResponse_def processStreamEvent_def model_content_def text_part_def Let_def
        double_of_exact_exact)
  have step: "snd (processStreamEvent m s (Some chunk))
        = [\<lparr>candidates = [\<lparr>content = \<lparr>role = Some ''model'',
                                         parts = Some [\<lparr>part_text = Some t, inlineData = None\<rparr>]\<rparr>,
                            finishReason = None, index = 0\<rparr>],
            usageMetadata = None, modelVersion = m\<rparr>]"
    by (simp add: processStreamEvent_delta [OF assms(1) bind assms(4)] model_content_def text_part_def)
  have whole: "processStreamResponse (events @ [Some chunk]) m
        = processStreamResponse events m
          @ [\<lparr>candidates = [\<lparr>content = \<lparr>role = Some ''model'',
                                           parts = Some [\<lparr>part_text = Some t, inlineData = None\<rparr>]\<rparr>,
                              finishReason = None, index = 0\<rparr>],
              usageMetadata = None, modelVersion = m\<rparr>]"
    by (simp add: processStreamResponse_def processStreamFrom_snoc_delta [OF assms(1) bind assms(4)]
        model_content_def text_part_def)
  from scenario step whole show ?thesis
    by (intro conjI)
qed

text \<open>The general part of C4 at the frame \<open>Hel\<close> after a \<open>message_start\<close> frame.\<close>

theorem processStreamResponse_incremental_witness:
  "chunk_type \<lparr>chunk_type = ''content_block_delta'', chunk_message = None,
               chunk_delta = Some \<lparr>delta_text = Some ''Hel''\<rparr>\<rparr> = ''content_block_delta''
   \<and> ''Hel'' \<noteq> []
   \<and> processStreamResponse
       ([Some \<lparr>chunk_type = ''message_start'',
               chunk_message = Some \<lparr>message_usage = Some \<lparr>chunk_input_tokens = Some (Finite 7)\<rparr>\<rparr>,
               chunk_delta = None\<rparr>]
        @ [Some \<lparr>chunk_type = ''content_block_delta'', chunk_message = None,
                 chunk_delta = Some \<lparr>delta_text = Some ''Hel''\<rparr>\<rparr>]) ''gemini-1.5-pro''
     = processStreamResponse
        [Some \<lparr>chunk_type = ''message_start'',
               chunk_message = Some \<lparr>message_usage = Some \<lparr>chunk_input_tokens = Some (Finite 7)\<rparr>\<rparr>,
               chunk_delta = None\<rparr>] ''gemini-1.5-pro''
       @ [\<lparr>candidates = [\<lparr>content = \<lparr>role = Some ''model'',
                                         parts = Some [\<lparr>part_text = Some ''Hel'', inlineData = None\<rparr>]\<rparr>,
                           finishReason = None, index = 0\<rparr>],
           usageMetadata = None, modelVersion = ''gemini-1.5-pro''\<rparr>]"
  using processStreamResponse_incremental
    [of "\<lparr>chunk_type = ''content_block_delta'', chunk_message = None,
          chunk_delta = Some \<lparr>delta_text = Some ''Hel''\<rparr>\<rparr>"
        "\<lparr>delta_text = Some ''Hel''\<rparr>" "''Hel''" "''gemini-1.5-pro''"
        "\<lparr>accumulatedText = [], inputTokens = Finite 0, outputTokens = Finite 0\<rparr>"
        "[Some \<lparr>chunk_type = ''message_start'',
               chunk_message = Some \<lparr>message_usage = Some \<lparr>chunk_input_tokens = Some (Finite 7)\<rparr>\<rparr>,
               chunk_delta = None\<rparr>]"]
  by simp

text \<open>
  C5. \<open>parseModelFromString\<close> gives the same value for \<open>claude-3.5-sonnet\<close>,
  \<open>claude35sonnet\<close> and \<open>sonnet\<close>, and that value is the Claude 3.5 Sonnet member of the
  enum, whose identifier is \<open>anthropic.claude-3-5-sonnet-20241022-v2:0\<close>. The equivalence
  is one of case and separators: spellings of aliases of other models in other case and
  with other separators resolve to those models, lower-casing an input or removing its
  hyphens, underscores and whitespace never changes the result, and two inputs with the same
  normalised form resolve alike.
\<close>

theorem parseModelFromString_sonnet_aliases:
  "parseModelFromString ''claude-3.5-sonnet'' = ModelId CLAUDE_3_5_SONNET
   \<and> parseModelFromString ''claude35sonnet'' = ModelId CLAUDE_3_5_SONNET
   \<and> parseModelFromString ''sonnet'' = ModelId CLAUDE_3_5_SONNET
   \<and> parseModelFromString ''Claude_3.5 SONNET'' = ModelId CLAUDE_3_5_SONNET
   \<and> AnthropicModel_value CLAUDE_3_5_SONNET = ''anthropic.claude-3-5-sonnet-20241022-v2:0''
   \<and> normalizedModel ''Claude_3.5 SONNET'' = ''claude3.5sonnet''
   \<and> parseModelFromString ''Claude_3-OPUS'' = ModelId CLAUDE_3_OPUS
   \<and> parseModelFromString ''opus'' = ModelId CLAUDE_3_OPUS
   \<and> parseModelFromString ''claude 3.5 HAIKU'' = ModelId CLAUDE_3_5_HAIKU
   \<and> parseModelFromString ''Claude-3-Sonnet'' = ModelId CLAUDE_3_SONNET
   \<and> parseModelFromString (toLowerCase s) = parseModelFromString s
   \<and> parseModelFromString (filter (\<lambda>c. \<not> is_separator c) s) = parseModelFromString s
   \<and> (normalizedModel a = normalizedModel b \<longrightarrow> parseModelFromString a = parseModelFromString b)"
proof -
  have instances:
    "parseModelFromString ''claude-3.5-sonnet'' = ModelId CLAUDE_3_5_SONNET
     \<and> parseModelFromString ''claude35sonnet'' = ModelId CLAUDE_3_5_SONNET
     \<and> parseModelFromString ''sonnet'' = ModelId CLAUDE_3_5_SONNET
     \<and> parseModelFromString ''Claude_3.5 SONNET'' = ModelId CLAUDE_3_5_SONNET
     \<and> AnthropicModel_value CLAUDE_3_5_SONNET = ''anthropic.claude-3-5-sonnet-20241022-v2:0''
     \<and> normalizedModel ''Claude_3.5 SONNET'' = ''claude3.5sonnet''
     \<and> parseModelFromString ''Claude_3-OPUS'' = ModelId CLAUDE_3_OPUS
     \<and> parseModelFromString ''opus'' = ModelId CLAUDE_3_OPUS
     \<and> parseModelFromString ''claude 3.5 HAIKU'' = ModelId CLAUDE_3_5_HAIKU
     \<and> parseModelFromString ''Claude-3-Sonnet'' = ModelId CLAUDE_3_SONNET"
    by code_simp
  have lower: "parseModelFromString (toLowerCase s) = parseModelFromString s"
    by (simp only: parseModelFromString_def normalizedModel_toLowerCase)
  have strip: "parseModelFromString (filter (\<lambda>c. \<not> is_separator c) s) = parseModelFromString s"
    by (simp only: parseModelFromString_def normalizedModel_strip)
  have same: "normalizedModel a = normalizedModel b \<longrightarrow> parseModelFromString a = parseModelFromString b"
    by (simp only: parseModelFromString_def) simp
  from instances lower strip same show ?thesis
    by (simp only: simp_thms)
qed

text \<open>C5 at \<open>Claude_3-OPUS\<close> and \<open>claude3opus\<close>, which have the same normalised form.\<close>

theorem parseModelFromString_sonnet_aliases_witness:
  "normalizedModel ''Claude_3-OPUS'' = normalizedModel ''claude3opus''
   \<and> parseModelFromString ''Claude_3-OPUS'' = parseModelFromString ''claude3opus''
   \<and> parseModelFromString ''claude3opus'' = ModelId CLAUDE_3_OPUS"
proof -
  have n: "normalizedModel ''Claude_3-OPUS'' = normalizedModel ''claude3opus''"
    by code_simp
  have "parseModelFromString ''Claude_3-OPUS'' = parseModelFromString ''claude3opus''"
    using parseModelFromString_sonnet_aliases [of _ "''Claude_3-OPUS''" "''claude3opus''"] n by blast
  moreover have "parseModelFromString ''Claude_3-OPUS'' = ModelId CLAUDE_3_OPUS"
    using parseModelFromString_sonnet_aliases [of _ "''Claude_3-OPUS''" "''claude3opus''"] by blast
  ultimately show ?thesis using n by simp
qed

text \<open>
  C6. The input \<open>constructor\<close> is no alias and no exact name, yet it does not resolve to
  the default: the lookup in the alias table finds the member \<open>constructor\<close> that the table
  inherits from \<open>Object.prototype\<close>, and \<open>parseModelFromString\<close> returns that member.
  \<open>getAnthropicModelId\<close> does the same on an inherited name such as \<open>toString\<close>, here
  for a generator whose default model is Claude 3.5 Sonnet.
\<close>

theorem parseModelFromString_constructor:
  "parseModelFromString ''constructor'' = PrototypeProperty ''constructor''
   \<and> parseModelFromString ''constructor'' \<noteq> ModelId CLAUDE_3_5_SONNET
   \<and> map_of modelMappings (normalizedModel ''constructor'') = None
   \<and> getAnthropicModelId
        \<lparr>bedrockClient = BedrockRuntimeClient \<lparr>region = ''us-east-1'', credentials = fromEnv, requestHandler = None\<rparr>,
        defaultModel = ModelId CLAUDE_3_5_SONNET\<rparr>
        ''toString'' = PrototypeProperty ''toString''"
proof -
  have parsed: "parseModelFromString ''constructor'' = PrototypeProperty ''constructor''"
    by code_simp
  have no_alias: "map_of modelMappings (normalizedModel ''constructor'') = None"
    by code_simp
  have exact: "\<And>this. getAnthropicModelId this ''toString'' = PrototypeProperty ''toString''"
    by (simp add: getAnthropicModelId_def modelMap_def get_property_def or_default_def
        Object_prototype_properties_def)
  from parsed no_alias exact show ?thesis
    by simp
qed

text \<open>
  C7. The stop-reason mapping is a total function on strings: it sends \<open>end_turn\<close> to
  \<open>STOP\<close>, \<open>max_tokens\<close> to \<open>MAX_TOKENS\<close>, \<open>stop_sequence\<close> to \<open>STOP\<close>, and every
  other string to \<open>OTHER\<close>.
\<close>

theorem mapStopReason_total:
  "mapStopReason ''end_turn'' = ''STOP''
   \<and> mapStopReason ''max_tokens'' = ''MAX_TOKENS''
   \<and> mapStopReason ''stop_sequence'' = ''STOP''
   \<and> (\<forall>s. s \<notin> {''end_turn'', ''max_tokens'', ''stop_sequence''} \<longrightarrow> mapStopReason s = ''OTHER'')"
  by (simp add: mapStopReason_def)

text \<open>C7 at the unrecognised stop reason \<open>content_filter\<close>.\<close>

theorem mapStopReason_total_witness:
  "''content_filter'' \<notin> {''end_turn'', ''max_tokens'', ''stop_sequence''}
   \<and> mapStopReason ''content_filter'' = ''OTHER''"
  using mapStopReason_total by simp




text \<open>
  C9. \<open>embedContent\<close> fails on every request with the error "Embeddings not supported
  with Anthropic models. Use Amazon Titan embeddings instead."; it never returns an
  embedding.
\<close>

theorem embedContent_always_fails:
  "embedContent request =
     Inl (Error ''Embeddings not supported with Anthropic models. Use Amazon Titan embeddings instead.'')
   \<and> (\<nexists>response. embedContent request = Inr response)"
  by (simp add: embedContent_def)

text \<open>
  C10. Whatever the URL parser and the proxy-agent classes do on a proxy URL (throwing
  included), \<open>createProxyAgent\<close> returns: with no agent and one warning when the parser, or
  anything else in its \<open>try\<close> block, throws, and with no agent when the URL parses with a
  scheme other than \<open>https:\<close> and \<open>http:\<close>. Whenever it returns no agent, for a proxy URL
  given as argument as well as for one found in the environment, the constructor does what
  it does with no proxy at all, the warning apart: it constructs the SDK client from the
  configuration without request handler and returns the generator if the SDK constructor
  returns. The constructor throws only what the SDK constructor throws.
\<close>

theorem proxy_url_never_throws:
  "(\<exists>agent warned. createProxyAgent platform proxyUrl = Inr (agent, warned))
   \<and> (new_URL platform proxyUrl = Inl e \<longrightarrow>
        createProxyAgent platform proxyUrl = Inr (None, [''Invalid proxy URL: '' @ proxyUrl]))
   \<and> (createProxyAgent_try platform proxyUrl = Inl e \<longrightarrow>
        createProxyAgent platform proxyUrl = Inr (None, [''Invalid proxy URL: '' @ proxyUrl]))
   \<and> (new_URL platform proxyUrl = Inr url \<longrightarrow> protocol url \<noteq> ''https:'' \<longrightarrow> protocol url \<noteq> ''http:'' \<longrightarrow>
        createProxyAgent platform proxyUrl = Inr (None, []))
   \<and> (proxyUrl \<noteq> [] \<longrightarrow> createProxyAgent platform proxyUrl = Inr (None, warned) \<longrightarrow>
        new_AnthropicContentGenerator platform env region_arg defaultModel_arg (Some proxyUrl) =
          (fst (new_AnthropicContentGenerator platform (\<lambda>name. None) region_arg defaultModel_arg None), warned))
   \<and> (\<not> truthy_string proxyUrl_arg \<longrightarrow>
        first_truthy [env ''HTTPS_PROXY'', env ''https_proxy'', env ''HTTP_PROXY'', env ''http_proxy'']
          = Some proxyUrl \<longrightarrow>
        createProxyAgent platform proxyUrl = Inr (None, warned) \<longrightarrow>
        new_AnthropicContentGenerator platform env region_arg defaultModel_arg proxyUrl_arg =
          (fst (new_AnthropicContentGenerator platform (\<lambda>name. None) region_arg defaultModel_arg None), warned))
   \<and> new_AnthropicContentGenerator platform (\<lambda>name. None) region_arg defaultModel_arg None =
        (case BedrockRuntimeClient_throws platform
                \<lparr>region = (case region_arg of None \<Rightarrow> ''us-east-1'' | Some r \<Rightarrow> r),
                  credentials = fromEnv, requestHandler = None\<rparr> of
           Some thrown \<Rightarrow> Inl thrown
         | None \<Rightarrow>
             Inr \<lparr>bedrockClient = BedrockRuntimeClient
                     \<lparr>region = (case region_arg of None \<Rightarrow> ''us-east-1'' | Some r \<Rightarrow> r),
                       credentials = fromEnv, requestHandler = None\<rparr>,
                   defaultModel = (case defaultModel_arg of None \<Rightarrow> ModelId CLAUDE_3_5_SONNET | Some m \<Rightarrow> m)\<rparr>,
         [])
   \<and> (fst (new_AnthropicContentGenerator platform env region_arg defaultModel_arg proxyUrl_arg) = Inl e \<longrightarrow>
        (\<exists>finalConfig. BedrockRuntimeClient_throws platform finalConfig = Some e
           \<and> region finalConfig = (case region_arg of None \<Rightarrow> ''us-east-1'' | Some r \<Rightarrow> r)))"
  using createProxyAgent_returns [of platform proxyUrl]
    createProxyAgent_malformed [of platform proxyUrl e]
    createProxyAgent_try_throws [of platform proxyUrl e]
    createProxyAgent_other_scheme [of platform proxyUrl url]
    new_AnthropicContentGenerator_no_agent [of proxyUrl platform warned env region_arg defaultModel_arg]
    new_AnthropicContentGenerator_no_agent_env [of proxyUrl_arg env proxyUrl platform warned region_arg defaultModel_arg]
    new_AnthropicContentGenerator_no_proxy [of platform region_arg defaultModel_arg]
    new_AnthropicContentGenerator_throws_only_client [of platform env region_arg defaultModel_arg proxyUrl_arg e]
  by (intro conjI impI) assumption+

text \<open>C10 at the proxy URL \<open>not a url\<close>, on which the parser throws, given as argument and
  given in \<open>HTTPS_PROXY\<close>.\<close>

theorem proxy_url_never_throws_witness:
  "new_URL \<lparr>new_URL = (\<lambda>s. if s = ''http://proxy.corp:8080'' then Inr \<lparr>protocol = ''http:''\<rparr>
                           else Inl (TypeError ''Invalid URL'')),
             new_HttpsProxyAgent = (\<lambda>s. Inr (HttpsProxyAgent s)),
             new_HttpProxyAgent = (\<lambda>s. Inr (HttpProxyAgent s)),
             BedrockRuntimeClient_throws =
               (\<lambda>c. if region c = [] then Some (Error ''Region is missing'') else None)\<rparr> ''not a url''
     = Inl (TypeError ''Invalid URL'')
   \<and> new_AnthropicContentGenerator
        \<lparr>new_URL = (\<lambda>s. if s = ''http://proxy.corp:8080'' then Inr \<lparr>protocol = ''http:''\<rparr>
                           else Inl (TypeError ''Invalid URL'')),
          new_HttpsProxyAgent = (\<lambda>s. Inr (HttpsProxyAgent s)),
          new_HttpProxyAgent = (\<lambda>s. Inr (HttpProxyAgent s)),
          BedrockRuntimeClient_throws =
            (\<lambda>c. if region c = [] then Some (Error ''Region is missing'') else None)\<rparr>
        (\<lambda>name. None) None None (Some ''not a url'')
       = (Inr \<lparr>bedrockClient = BedrockRuntimeClient
                   \<lparr>region = ''us-east-1'', credentials = fromEnv, requestHandler = None\<rparr>,
                defaultModel = ModelId CLAUDE_3_5_SONNET\<rparr>,
          [''Invalid proxy URL: not a url''])
   \<and> new_AnthropicContentGenerator
        \<lparr>new_URL = (\<lambda>s. if s = ''http://proxy.corp:8080'' then Inr \<lparr>protocol = ''http:''\<rparr>
                           else Inl (TypeError ''Invalid URL'')),
          new_HttpsProxyAgent = (\<lambda>s. Inr (HttpsProxyAgent s)),
          new_HttpProxyAgent = (\<lambda>s. Inr (HttpProxyAgent s)),
          BedrockRuntimeClient_throws =
            (\<lambda>c. if region c = [] then Some (Error ''Region is missing'') else None)\<rparr>
        (\<lambda>name. if name = ''HTTPS_PROXY'' then Some ''not a url'' else None) None None None
       = (Inr \<lparr>bedrockClient = BedrockRuntimeClient
                   \<lparr>region = ''us-east-1'', credentials = fromEnv, requestHandler = None\<rparr>,
                defaultModel = ModelId CLAUDE_3_5_SONNET\<rparr>,
          [''Invalid proxy URL: not a url''])"
proof -
  let ?P = "\<lparr>new_URL = (\<lambda>s. if s = ''http://proxy.corp:8080'' then Inr \<lparr>protocol = ''http:''\<rparr>
                           else Inl (TypeError ''Invalid URL'')),
          new_HttpsProxyAgent = (\<lambda>s. Inr (HttpsProxyAgent s)),
          new_HttpProxyAgent = (\<lambda>s. Inr (HttpProxyAgent s)),
          BedrockRuntimeClient_throws =
            (\<lambda>c. if region c = [] then Some (Error ''Region is missing'') else None)\<rparr>"
  let ?env = "\<lambda>name. if name = ''HTTPS_PROXY'' then Some ''not a url'' else None"
  let ?warned = "[''Invalid proxy URL: not a url'']"
  note explicit = proxy_url_never_throws
    [where platform = ?P and proxyUrl = "''not a url''" and e = "TypeError ''Invalid URL''"
       and warned = ?warned and env = "\<lambda>name. None"
       and region_arg = None and defaultModel_arg = None and proxyUrl_arg = None]
  note environment = proxy_url_never_throws
    [where platform = ?P and proxyUrl = "''not a url''" and e = "TypeError ''Invalid URL''"
       and warned = ?warned and env = ?env
       and region_arg = None and defaultModel_arg = None and proxyUrl_arg = None]
  have throws: "new_URL ?P ''not a url'' = Inl (TypeError ''Invalid URL'')"
    by simp
  with explicit have agent: "createProxyAgent ?P ''not a url'' = Inr (None, ?warned)"
    by simp
  from explicit have plain: "new_AnthropicContentGenerator ?P (\<lambda>name. None) None None None =
      (Inr \<lparr>bedrockClient = BedrockRuntimeClient
                \<lparr>region = ''us-east-1'', credentials = fromEnv, requestHandler = None\<rparr>,
             defaultModel = ModelId CLAUDE_3_5_SONNET\<rparr>, [])"
    by simp
  from explicit agent have "new_AnthropicContentGenerator ?P (\<lambda>name. None) None None (Some ''not a url'') =
      (fst (new_AnthropicContentGenerator ?P (\<lambda>name. None) None None None), ?warned)"
    by simp
  with plain have first: "new_AnthropicContentGenerator ?P (\<lambda>name. None) None None (Some ''not a url'') =
      (Inr \<lparr>bedrockClient = BedrockRuntimeClient
                \<lparr>region = ''us-east-1'', credentials = fromEnv, requestHandler = None\<rparr>,
             defaultModel = ModelId CLAUDE_3_5_SONNET\<rparr>, ?warned)"
    by simp
  have found: "first_truthy [?env ''HTTPS_PROXY'', ?env ''https_proxy'', ?env ''HTTP_PROXY'', ?env ''http_proxy'']
      = Some ''not a url''"
    by simp
  from environment agent found have "new_AnthropicContentGenerator ?P ?env None None None =
      (fst (new_AnthropicContentGenerator ?P (\<lambda>name. None) None None None), ?warned)"
    by simp
  with plain have second: "new_AnthropicContentGenerator ?P ?env None None None =
      (Inr \<lparr>bedrockClient = BedrockRuntimeClient
                \<lparr>region = ''us-east-1'', credentials = fromEnv, requestHandler = None\<rparr>,
             defaultModel = ModelId CLAUDE_3_5_SONNET\<rparr>, ?warned)"
    by simp
  from throws first second show ?thesis
    by (intro conjI)
qed

end
